theory Spec2Isabelle
  imports Main "HOL-Library.Word" "HOL-Library.AList"
begin

section \<open>Match state manager (src/shared/match-state-manager.ts)\<close>

text \<open>
  A match id is a \<open>Uint8Array\<close>: a list of bytes. \<open>matchId: Uint8Array | null\<close> is an
  option. \<open>Date.now()\<close> is passed in as an argument wherever the source reads the clock.
\<close>

type_synonym byte = "8 word"
type_synonym match_id = "byte list"

record MatchState =
  matchId :: "match_id option"
  tournamentId :: string
  lastUpdateTime :: int

definition initialMatchState :: MatchState where
  "initialMatchState = \<lparr>matchId = None, tournamentId = [], lastUpdateTime = 0\<rparr>"

text \<open>The \<open>for\<close> loop of \<open>areMatchIdsEqual\<close>, from index \<open>i\<close> on.\<close>

function areMatchIdsEqual_loop :: "match_id \<Rightarrow> match_id \<Rightarrow> nat \<Rightarrow> bool" where
  "areMatchIdsEqual_loop id1 id2 i =
     (if i < length id1
      then (if id1 ! i \<noteq> id2 ! i then False else areMatchIdsEqual_loop id1 id2 (Suc i))
      else True)"
  by pat_completeness auto
termination
  by (relation "measure (\<lambda>(id1, id2, i). length id1 - i)") auto

declare areMatchIdsEqual_loop.simps [simp del]

definition areMatchIdsEqual :: "match_id \<Rightarrow> match_id \<Rightarrow> bool" where
  "areMatchIdsEqual id1 id2 =
     (if length id1 \<noteq> length id2 then False else areMatchIdsEqual_loop id1 id2 0)"

text \<open>\<open>shouldRefresh\<close> only reads the state (its other effects are log lines).\<close>

definition shouldRefresh :: "MatchState \<Rightarrow> match_id \<Rightarrow> bool" where
  "shouldRefresh currentState newMatchId =
     (case matchId currentState of
        None \<Rightarrow> False
      | Some cur \<Rightarrow> \<not> areMatchIdsEqual cur newMatchId)"

text \<open>\<open>updateState\<close> replaces the whole state; \<open>new Uint8Array(matchId)\<close> is a copy of the bytes.\<close>

definition updateState :: "MatchState \<Rightarrow> match_id \<Rightarrow> string \<Rightarrow> int \<Rightarrow> MatchState" where
  "updateState currentState mid tid now =
     \<lparr>matchId = Some mid, tournamentId = tid, lastUpdateTime = now\<rparr>"

definition clearMatchState :: "MatchState \<Rightarrow> MatchState" where
  "clearMatchState currentState = \<lparr>matchId = None, tournamentId = [], lastUpdateTime = 0\<rparr>"

text \<open>
  A sequence of calls on one manager. \<open>run_calls\<close> threads the state through the calls and
  collects what each \<open>shouldRefresh\<close> returned, in call order.
\<close>

datatype manager_call = ShouldRefresh match_id | UpdateState match_id string int

fun run_calls :: "MatchState \<Rightarrow> manager_call list \<Rightarrow> MatchState \<times> bool list" where
  "run_calls st [] = (st, [])"
| "run_calls st (ShouldRefresh x # cs) =
     (let (st', rs) = run_calls st cs in (st', shouldRefresh st x # rs))"
| "run_calls st (UpdateState x tid now # cs) = run_calls (updateState st x tid now) cs"

text \<open>The id given to the last \<open>updateState\<close> of a call sequence, if there is one.\<close>

fun last_stored :: "manager_call list \<Rightarrow> match_id option" where
  "last_stored [] = None"
| "last_stored (ShouldRefresh x # cs) = last_stored cs"
| "last_stored (UpdateState x tid now # cs) =
     (case last_stored cs of None \<Rightarrow> Some x | Some y \<Rightarrow> Some y)"

text \<open>
  The delivery callback the repository installs on the dispatcher (test-websocket.ts,
  \<open>testReconnectionScenarios\<close>): when the message carries a match id it asks
  \<open>shouldRefresh\<close>, logs one of three lines, and then calls \<open>updateState\<close> with
  \<open>message.tournamentId || ''\<close>. The result is the new state and the refresh decision
  (\<open>None\<close> when the message has no match id).
\<close>

record ObserverMessage2 =
  msg_matchId :: "match_id option"
  msg_tournamentId :: "string option"

definition onUpdate_refresh ::
  "MatchState \<Rightarrow> ObserverMessage2 \<Rightarrow> bool \<Rightarrow> int \<Rightarrow> MatchState \<times> bool option" where
  "onUpdate_refresh st message reconnecting now =
     (case msg_matchId message of
        None \<Rightarrow> (st, None)
      | Some mid \<Rightarrow>
          (let refresh = shouldRefresh st mid
           in (updateState st mid (case msg_tournamentId message of None \<Rightarrow> [] | Some t \<Rightarrow> t) now,
               Some refresh)))"

text \<open>
  The dispatcher hands the callback one message after the other; \<open>deliver_all\<close> runs the
  callback over a list of (message, reconnecting flag, clock reading) and collects the
  refresh decisions.
\<close>

fun deliver_all :: "MatchState \<Rightarrow> (ObserverMessage2 \<times> bool \<times> int) list \<Rightarrow> bool option list" where
  "deliver_all st [] = []"
| "deliver_all st ((message, reconnecting, now) # rest) =
     (let (st', d) = onUpdate_refresh st message reconnecting now in d # deliver_all st' rest)"

text \<open>
  What the decisions should be, as a function of the match ids alone: no refresh while no
  id has been seen, afterwards a refresh exactly when the id differs from the one before.
\<close>

fun expected_decisions :: "match_id option \<Rightarrow> match_id list \<Rightarrow> bool list" where
  "expected_decisions prev [] = []"
| "expected_decisions prev (x # xs) =
     (case prev of None \<Rightarrow> False | Some p \<Rightarrow> x \<noteq> p) # expected_decisions (Some x) xs"

definition with_id :: "string option \<Rightarrow> match_id \<times> bool \<times> int \<Rightarrow> ObserverMessage2 \<times> bool \<times> int" where
  "with_id tid item =
     (case item of (x, reconnecting, now) \<Rightarrow>
        (\<lparr>msg_matchId = Some x, msg_tournamentId = tid\<rparr>, reconnecting, now))"

section \<open>Message dispatcher (src/shared/message-dispatcher.ts)\<close>

text \<open>
  The dispatcher's fields. \<open>intervalTimer\<close> records whether an interval handle is held,
  \<open>hasOnUpdate\<close> whether \<open>onUpdate\<close> is non-null. \<open>dataFormat.parseFromJson\<close> is the
  external decoder: it is a parameter \<open>parse\<close>, with \<open>None\<close> for a payload on which it
  throws. An invocation of the \<open>onUpdate\<close> callback is an output of \<open>onTimerExpired\<close>:
  the decoded message and the reconnecting flag it was called with.
\<close>

record EventQueueData =
  reconnecting :: bool
  data :: string

record MessageDispatcher =
  eventQueue :: "EventQueueData list"
  intervalTimer :: bool
  latestProcessTime :: int
  hasOnUpdate :: bool

definition intervalMs :: int where
  "intervalMs = 1500"

definition checkIntervalMs :: int where
  "checkIntervalMs = 100"

definition newMessageDispatcher :: "bool \<Rightarrow> int \<Rightarrow> MessageDispatcher" where
  "newMessageDispatcher onUpdate now =
     \<lparr>eventQueue = [], intervalTimer = False, latestProcessTime = now, hasOnUpdate = onUpdate\<rparr>"

definition start :: "int \<Rightarrow> MessageDispatcher \<Rightarrow> MessageDispatcher" where
  "start now d =
     (if intervalTimer d then d
      else d\<lparr>latestProcessTime := now, intervalTimer := True\<rparr>)"

definition stop :: "MessageDispatcher \<Rightarrow> MessageDispatcher" where
  "stop d = (if intervalTimer d then d\<lparr>intervalTimer := False\<rparr> else d)"

definition enqueue :: "EventQueueData \<Rightarrow> MessageDispatcher \<Rightarrow> MessageDispatcher" where
  "enqueue x d = d\<lparr>eventQueue := eventQueue d @ [x]\<rparr>"

definition clear :: "MessageDispatcher \<Rightarrow> MessageDispatcher" where
  "clear d = d\<lparr>eventQueue := []\<rparr>"

definition getQueueSize :: "MessageDispatcher \<Rightarrow> nat" where
  "getQueueSize d = length (eventQueue d)"

text \<open>
  The \<open>try\<close> block of \<open>onTimerExpired\<close>: decode, then call \<open>onUpdate\<close> if there is one.
  A decoder that throws is caught and logged: no callback.
\<close>

definition process :: "(string \<Rightarrow> 'm option) \<Rightarrow> bool \<Rightarrow> EventQueueData \<Rightarrow> ('m \<times> bool) list" where
  "process parse onUpdate eventData =
     (case parse (data eventData) of
        None \<Rightarrow> []
      | Some observerMessage \<Rightarrow>
          (if onUpdate then [(observerMessage, reconnecting eventData)] else []))"

text \<open>
  \<open>onTimerExpired\<close>. \<open>now\<close> is the clock reading at entry, \<open>fin\<close> the second reading
  that is stored in \<open>latestProcessTime\<close> after the \<open>try\<close>/\<open>catch\<close>. The two \<open>shift()\<close>
  calls are the two list patterns.
\<close>

definition onTimerExpired ::
  "(string \<Rightarrow> 'm option) \<Rightarrow> int \<Rightarrow> int \<Rightarrow> MessageDispatcher \<Rightarrow> MessageDispatcher \<times> ('m \<times> bool) list" where
  "onTimerExpired parse now fin d =
     (if now - latestProcessTime d < intervalMs then (d, [])
      else (case eventQueue d of
              [] \<Rightarrow> (d, [])
            | eventData # q1 \<Rightarrow>
                (case q1 of
                   [] \<Rightarrow>
                     (d\<lparr>eventQueue := [], latestProcessTime := fin\<rparr>,
                      process parse (hasOnUpdate d) eventData)
                 | eventData2 # q2 \<Rightarrow>
                     (d\<lparr>eventQueue := q2, latestProcessTime := fin\<rparr>,
                      process parse (hasOnUpdate d) eventData2))))"

text \<open>
  What happens to a dispatcher over time: calls of its public methods, and firings of the
  interval timer, which reach \<open>onTimerExpired\<close> only while the interval is set. A run
  returns the final state and the callback invocations, each with the clock reading of
  the tick that made it.
\<close>

datatype dispatcher_event =
  Start int | Stop | Enqueue EventQueueData | Clear | Tick int int

fun run_dispatcher ::
  "(string \<Rightarrow> 'm option) \<Rightarrow> MessageDispatcher \<Rightarrow> dispatcher_event list \<Rightarrow>
   MessageDispatcher \<times> (int \<times> 'm \<times> bool) list" where
  "run_dispatcher parse d [] = (d, [])"
| "run_dispatcher parse d (Start now # es) = run_dispatcher parse (start now d) es"
| "run_dispatcher parse d (Stop # es) = run_dispatcher parse (stop d) es"
| "run_dispatcher parse d (Enqueue x # es) = run_dispatcher parse (enqueue x d) es"
| "run_dispatcher parse d (Clear # es) = run_dispatcher parse (clear d) es"
| "run_dispatcher parse d (Tick now fin # es) =
     (if intervalTimer d
      then (let (d1, calls) = onTimerExpired parse now fin d;
                (d2, later) = run_dispatcher parse d1 es
            in (d2, map (\<lambda>c. (now, c)) calls @ later))
      else run_dispatcher parse d es)"

text \<open>The clock readings of a run never go back, starting from \<open>t\<close>.\<close>

fun clock_ok :: "int \<Rightarrow> dispatcher_event list \<Rightarrow> bool" where
  "clock_ok t [] = True"
| "clock_ok t (Start now # es) = (t \<le> now \<and> clock_ok now es)"
| "clock_ok t (Tick now fin # es) = (t \<le> now \<and> now \<le> fin \<and> clock_ok fin es)"
| "clock_ok t (e # es) = clock_ok t es"

text \<open>Successive times are at least one pacing interval apart.\<close>

fun spaced :: "int list \<Rightarrow> bool" where
  "spaced [] = True"
| "spaced [t] = True"
| "spaced (t1 # t2 # ts) = (t1 + intervalMs \<le> t2 \<and> spaced (t2 # ts))"

text \<open>The entry a tick selects from a non-empty queue: the second if there is one.\<close>

definition selected :: "EventQueueData list \<Rightarrow> EventQueueData" where
  "selected q = (if length q = 1 then q ! 0 else q ! 1)"

text \<open>A run in which \<open>start\<close> is never called.\<close>

fun no_start :: "dispatcher_event list \<Rightarrow> bool" where
  "no_start [] = True"
| "no_start (Start now # es) = False"
| "no_start (e # es) = no_start es"

text \<open>Concrete messages and a dispatcher holding three of them, for the worked examples.\<close>

definition msg1 :: EventQueueData where
  "msg1 = \<lparr>reconnecting = False, data = ''m1''\<rparr>"

definition msg2 :: EventQueueData where
  "msg2 = \<lparr>reconnecting = False, data = ''m2''\<rparr>"

definition msg3 :: EventQueueData where
  "msg3 = \<lparr>reconnecting = False, data = ''m3''\<rparr>"

text \<open>
  The scenario of three messages enqueued 200 ms apart on a dispatcher started at time 0,
  with the interval timer firing every \<open>checkIntervalMs\<close>: the ticks at 100 and 200, the
  second message, the ticks at 300 and 400, the third message, and \<open>n\<close> more ticks from
  500 on.
\<close>

fun ticks :: "int \<Rightarrow> nat \<Rightarrow> dispatcher_event list" where
  "ticks t 0 = []"
| "ticks t (Suc n) = Tick t t # ticks (t + checkIntervalMs) n"

definition burst_of_three :: "nat \<Rightarrow> dispatcher_event list" where
  "burst_of_three n =
     Start 0 # Enqueue msg1 # ticks 100 2 @ Enqueue msg2 # ticks 300 2 @ Enqueue msg3 # ticks 500 n"

definition three_queued :: MessageDispatcher where
  "three_queued =
     \<lparr>eventQueue = [msg1, msg2, msg3], intervalTimer = True, latestProcessTime = 0,
      hasOnUpdate = True\<rparr>"

section \<open>Team panel (live_team_panel.ts in src/unnamed/part_003, panel_animation_controller.ts)\<close>

text \<open>
  The records keep the fields the panel logic reads. JavaScript numbers that hold ranks,
  indices and pixel positions are integers here. \<open>Team2Data.id\<close> is \<open>team2_id\<close> and
  \<open>Team2Data.eliminated\<close> is \<open>team_eliminated\<close>, \<open>Player2Data.name\<close> is \<open>player_name\<close>
  (the plain names are taken). An absent optional field is \<open>None\<close>.
\<close>

record Team2Data =
  name :: string
  team2_id :: int
  total_kills :: int
  rank :: int
  total_score :: int
  placement_rank :: int
  team_eliminated :: bool

record PostDataStats =
  death_type :: string

record TelemetryStats =
  is_groggy :: bool
  is_alive :: bool

record Player2Data =
  player_name :: string
  team_name :: string
  team_id :: int
  post_data_pb :: "PostDataStats option"
  telemetry_pb :: "TelemetryStats option"

record SquadStatus =
  alive :: nat
  dead :: nat
  groggy :: nat
  total :: nat

text \<open>
  Of the panel's DOM element the model keeps the inline opacity, the class list and the
  inline \<open>top\<close> offset (\<open>style_top\<close>). Text contents, logos and the squad indicator
  nodes are written by \<open>updateDisplayElements\<close> and never read back by the logic; they
  are left out.
  \<open>classList.add\<close> appends a token that is not there yet, \<open>classList.remove\<close> deletes it.
\<close>

record PanelElement =
  opacity :: string
  classList :: "string list"
  style_top :: "int option"

definition classList_add :: "string \<Rightarrow> string list \<Rightarrow> string list" where
  "classList_add c cs = (if c \<in> set cs then cs else cs @ [c])"

definition classList_remove :: "string \<Rightarrow> string list \<Rightarrow> string list" where
  "classList_remove c cs = removeAll c cs"

record PanelAnimationController =
  prevPosition :: int
  currentIndex :: int
  panelHeight :: int

record LiveTeamPanel =
  element :: PanelElement
  teamData :: Team2Data
  squadStatus :: SquadStatus
  controller :: PanelAnimationController
  eliminated :: bool
  inMatch :: bool
  previousRank :: int

text \<open>
  Animations are outputs: \<open>playInkwellAnimation('up' | 'down')\<close> is the rank-up or
  rank-down event, \<open>toggleAnimation\<close> the fade-in of a new panel. Their timelines and
  timeouts belong to the renderer.
\<close>

datatype direction = Up | Down

datatype panel_effect = Inkwell direction | ToggleAnimation

text \<open>
  The callback of \<open>players.every\<close> in \<open>updatePanel\<close>: is this player not alive?
  \<open>player.post_data_pb?.death_type\<close> counts as a condition when the record is there and
  the string is not empty; otherwise \<open>telemetry_pb\<close> decides, and a player with no data
  is alive.
\<close>

definition player_not_alive :: "Player2Data \<Rightarrow> bool" where
  "player_not_alive player =
     (case post_data_pb player of
        Some pd \<Rightarrow>
          (if death_type pd \<noteq> [] then death_type pd \<noteq> ''alive''
           else (case telemetry_pb player of Some t \<Rightarrow> \<not> is_alive t | None \<Rightarrow> False))
      | None \<Rightarrow> (case telemetry_pb player of Some t \<Rightarrow> \<not> is_alive t | None \<Rightarrow> False))"

text \<open>The three counters of \<open>calculateSquadStatus\<close>, one player at a time.\<close>

datatype player_state = IsAlive | IsGroggy | IsDead

definition player_state_of :: "Player2Data \<Rightarrow> player_state" where
  "player_state_of player =
     (let fallback =
            (case telemetry_pb player of
               Some t \<Rightarrow> (if is_alive t then (if is_groggy t then IsGroggy else IsAlive) else IsDead)
             | None \<Rightarrow> IsAlive)
      in case post_data_pb player of
           Some pd \<Rightarrow>
             (if death_type pd \<noteq> []
              then (if death_type pd = ''alive'' then IsAlive
                    else if death_type pd = ''groggy'' then IsGroggy else IsDead)
              else fallback)
         | None \<Rightarrow> fallback)"

definition calculateSquadStatus :: "Team2Data \<Rightarrow> Player2Data list \<Rightarrow> SquadStatus" where
  "calculateSquadStatus td players =
     (let byId = filter (\<lambda>p. team_id p = team2_id td) players;
          teamPlayers = (if length byId = 0 then filter (\<lambda>p. team_name p = name td) players else byId)
      in if length teamPlayers = 0
         then \<lparr>alive = 4, dead = 0, groggy = 0, total = 4\<rparr>
         else \<lparr>alive = length (filter (\<lambda>p. player_state_of p = IsAlive) teamPlayers),
               dead = length (filter (\<lambda>p. player_state_of p = IsDead) teamPlayers),
               groggy = length (filter (\<lambda>p. player_state_of p = IsGroggy) teamPlayers),
               total = max (length teamPlayers) 4\<rparr>)"

text \<open>\<open>PanelAnimationController\<close>: constructor, \<open>setTop\<close> and \<open>setIndexAndPosition\<close>.\<close>

definition newPanelAnimationController :: "int \<Rightarrow> int \<Rightarrow> PanelAnimationController" where
  "newPanelAnimationController idx height =
     \<lparr>prevPosition = - 1, currentIndex = idx, panelHeight = height\<rparr>"

definition setTop :: "PanelElement \<Rightarrow> int \<Rightarrow> PanelElement" where
  "setTop el position = el\<lparr>style_top := Some position\<rparr>"

definition setIndexAndPosition ::
  "PanelAnimationController \<Rightarrow> PanelElement \<Rightarrow> int \<Rightarrow> int \<Rightarrow> PanelAnimationController \<times> PanelElement" where
  "setIndexAndPosition c el idx position =
     (c\<lparr>prevPosition := (if currentIndex c \<ge> 0 then currentIndex c * panelHeight c else - 1),
        currentIndex := idx\<rparr>,
      setTop el position)"

text \<open>
  The constructor. \<open>createElement\<close> yields a \<open>live-team-panel\<close> element, with the class
  \<open>eliminated\<close> when the team record says so. \<open>height\<close> is \<open>currentConfig.panel_height\<close>.
\<close>

definition createElement :: "Team2Data \<Rightarrow> PanelElement" where
  "createElement td =
     \<lparr>opacity = [],
      classList = (if team_eliminated td then classList_add ''eliminated'' [''live-team-panel'']
                   else [''live-team-panel'']),
      style_top = None\<rparr>"

definition newLiveTeamPanel :: "int \<Rightarrow> Team2Data \<Rightarrow> Player2Data list \<Rightarrow> int \<Rightarrow> LiveTeamPanel" where
  "newLiveTeamPanel height td players idx =
     \<lparr>element = createElement td,
      teamData = td,
      squadStatus = calculateSquadStatus td players,
      controller = newPanelAnimationController idx height,
      eliminated = False,
      inMatch = True,
      previousRank = rank td\<rparr>"

definition playInkwellAnimation :: "direction \<Rightarrow> PanelElement \<Rightarrow> PanelElement" where
  "playInkwellAnimation dir el =
     el\<lparr>classList :=
          classList_add (case dir of Up \<Rightarrow> ''rank-up-inkwell'' | Down \<Rightarrow> ''rank-down-inkwell'')
            (classList_remove ''rank-down-inkwell'' (classList_remove ''rank-up-inkwell'' (classList el)))\<rparr>"

definition toggleAnimation :: "PanelElement \<Rightarrow> PanelElement" where
  "toggleAnimation el = el\<lparr>classList := classList_add ''panel-fade-in'' (classList el)\<rparr>"

text \<open>\<open>handlePositionAndAnimation\<close>: the panel afterwards and the animations it started.\<close>

definition handlePositionAndAnimation ::
  "LiveTeamPanel \<Rightarrow> int \<Rightarrow> int \<Rightarrow> bool \<Rightarrow> LiveTeamPanel \<times> panel_effect list" where
  "handlePositionAndAnimation panel idx newPosition refresh =
     (let isInitialPosition = prevPosition (controller panel) < 0;
          currentRank = rank (teamData panel);
          (el, effects) =
            (if \<not> isInitialPosition \<and> \<not> refresh
             then (if previousRank panel > 0 \<and> previousRank panel \<noteq> currentRank
                   then (if previousRank panel > currentRank
                         then (playInkwellAnimation Up (element panel), [Inkwell Up])
                         else (playInkwellAnimation Down (element panel), [Inkwell Down]))
                   else (element panel, []))
             else if isInitialPosition
             then (if refresh then (toggleAnimation (element panel), [ToggleAnimation])
                   else (element panel, []))
             else (element panel, []));
          (c, el') = setIndexAndPosition (controller panel) el idx newPosition
      in (panel\<lparr>previousRank := currentRank, controller := c, element := el'\<rparr>, effects))"

text \<open>\<open>handleElimination\<close>: the panel afterwards and \<open>justEliminated\<close>.\<close>

definition handleElimination :: "LiveTeamPanel \<Rightarrow> bool \<Rightarrow> LiveTeamPanel \<times> bool" where
  "handleElimination panel elim =
     (if inMatch panel \<and> \<not> eliminated panel \<and> elim
      then (panel\<lparr>eliminated := True\<rparr>, True)
      else if elim \<and> eliminated panel
      then (panel\<lparr>element := (element panel)
                \<lparr>opacity := ''0.3'',
                 classList := classList_add ''eliminated'' (classList (element panel))\<rparr>\<rparr>,
            False)
      else if \<not> elim
      then (panel\<lparr>element := (element panel)
                \<lparr>opacity := ''1.0'',
                 classList := classList_remove ''eliminated'' (classList (element panel))\<rparr>,
               eliminated := False\<rparr>,
            False)
      else (panel, False))"

text \<open>
  \<open>updatePanel\<close>. \<open>playersMap\<close> is the \<open>Map\<close> from team name to that team's players of
  the current match; \<open>height\<close> is \<open>currentConfig.panel_height\<close>. The result is the panel
  afterwards, the animations started and the returned \<open>justEliminated\<close>. The call of
  \<open>updateDisplayElements\<close> with the rank text only writes text nodes and is not modelled.
\<close>

definition updatePanel ::
  "int \<Rightarrow> LiveTeamPanel \<Rightarrow> Team2Data \<Rightarrow> Team2Data \<Rightarrow> (string \<rightharpoonup> Player2Data list) \<Rightarrow> int \<Rightarrow> bool \<Rightarrow>
   LiveTeamPanel \<times> panel_effect list \<times> bool" where
  "updatePanel height panel team matchTeam playersMap idx refresh =
     (let players = (case playersMap (name team) of None \<Rightarrow> [] | Some ps \<Rightarrow> ps);
          elim = (if length players > 0 then list_all player_not_alive players else False);
          panel1 = panel\<lparr>inMatch := (length players \<noteq> 0),
                         teamData := team,
                         squadStatus := calculateSquadStatus team players\<rparr>;
          panel2 = panel1\<lparr>element := (element panel1)
                      \<lparr>opacity := (if inMatch panel1 then ''1.0'' else ''0.3'')\<rparr>\<rparr>;
          newPosition = (idx - 1) * height;
          (panel3, effects) = handlePositionAndAnimation panel2 idx newPosition refresh;
          (panel4, justEliminated) = handleElimination panel3 elim
      in (panel4, effects, justEliminated))"

text \<open>Concrete players, teams, rosters and panels for the worked examples.\<close>

definition dead_player :: Player2Data where
  "dead_player =
     \<lparr>player_name = ''p1'', team_name = ''T'', team_id = 7,
      post_data_pb = Some \<lparr>death_type = ''byplayer''\<rparr>, telemetry_pb = None\<rparr>"

definition alive_player :: Player2Data where
  "alive_player =
     \<lparr>player_name = ''p2'', team_name = ''T'', team_id = 7,
      post_data_pb = Some \<lparr>death_type = ''alive''\<rparr>, telemetry_pb = None\<rparr>"

definition team_T :: "int \<Rightarrow> Team2Data" where
  "team_T r =
     \<lparr>name = ''T'', team2_id = 7, total_kills = 0, rank = r, total_score = 10,
      placement_rank = 5, team_eliminated = False\<rparr>"

definition all_dead_roster :: "string \<rightharpoonup> Player2Data list" where
  "all_dead_roster = [''T'' \<mapsto> [dead_player, dead_player]]"

definition one_alive_roster :: "string \<rightharpoonup> Player2Data list" where
  "one_alive_roster = [''T'' \<mapsto> [dead_player, alive_player]]"

definition placed_panel :: "int \<Rightarrow> LiveTeamPanel" where
  "placed_panel r =
     fst (updatePanel 32 (newLiveTeamPanel 32 (team_T r) [] 1) (team_T r) (team_T r)
            one_alive_roster 1 False)"

definition eliminated_panel :: LiveTeamPanel where
  "eliminated_panel =
     fst (updatePanel 32 (placed_panel 3) (team_T 3) (team_T 3) all_dead_roster 1 False)"

section \<open>Leaderboard pass (src/renderer/overlay/livestanding.ts)\<close>

text \<open>
  \<open>updateTotalLeaderboardOnUIThread\<close> returns nothing. What it does is change the
  module variable \<open>totalTeamIndexMap\<close> (and the panels in it) and act on the outside:
  console lines, the animations the panels start, and the scheduled \<open>snapToPositions\<close>.
  These are the \<open>pass_output\<close>s, in the order the source produces them (the console
  lines inside \<open>updatePanel\<close> are not listed). \<open>OverlayEnqueue\<close> stands for a call of
  \<open>eliminationOverlay.enqueue\<close>, the only way a batch of eliminated teams reaches the
  elimination overlay; in the source that call is commented out under a FIXME, so no
  equation below produces it.
\<close>

datatype pass_output =
    ContainerNotFound
  | MatchEndedLog
  | AddedEliminatedLog string int
  | SkippingOverlayLog
  | ProcessingLog nat
  | OverlayEnqueue "Team2Data list" nat
  | SnapToPositions "Team2Data list"
  | PanelAnimation string panel_effect

text \<open>
  \<open>totalTeamIndexMap\<close> is a \<open>Map\<close> from team name to panel: an association list in
  insertion order, read with \<open>map_of\<close> and written with \<open>AList.update\<close>. The other fields
  of \<open>pass_state\<close> are the locals of the function that the \<open>forEach\<close> callback changes,
  and the outputs made so far.
\<close>

record pass_state =
  panels :: "(string \<times> LiveTeamPanel) list"
  eliminatedTeams :: "Team2Data list"
  idx :: int
  matchEnded :: bool
  outputs :: "pass_output list"

text \<open>
  The \<open>teamsToShow.forEach\<close> loop. A team that is not in \<open>matchTeamMap\<close> is skipped
  without advancing the index. The panel is looked up or created, \<open>updatePanel\<close> is
  called with \<open>refresh = false\<close>, and a just eliminated team is pushed (and logged) unless
  the match has already been marked ended in this pass; placement rank 2 marks it ended.
\<close>

fun forEach_team ::
  "int \<Rightarrow> (string \<rightharpoonup> Team2Data) \<Rightarrow> (string \<rightharpoonup> Player2Data list) \<Rightarrow> Team2Data list \<Rightarrow>
   pass_state \<Rightarrow> pass_state" where
  "forEach_team height matchTeamMap playersMap [] st = st"
| "forEach_team height matchTeamMap playersMap (team # rest) st =
     (case matchTeamMap (name team) of
        None \<Rightarrow> forEach_team height matchTeamMap playersMap rest st
      | Some matchTeam \<Rightarrow>
          (let panel = (case map_of (panels st) (name team) of
                          Some p \<Rightarrow> p
                        | None \<Rightarrow> newLiveTeamPanel height team [] (idx st));
               (panel', effects, justEliminated) =
                  updatePanel height panel team matchTeam playersMap (idx st) False;
               animations = map (PanelAnimation (name team)) effects;
               st1 = (if justEliminated \<and> \<not> matchEnded st
                      then st\<lparr>matchEnded := (if placement_rank matchTeam = 2 then True
                                              else matchEnded st),
                              eliminatedTeams := eliminatedTeams st @ [matchTeam],
                              outputs := outputs st @ animations @
                                (if placement_rank matchTeam = 2 then [MatchEndedLog] else []) @
                                [AddedEliminatedLog (name matchTeam) (rank matchTeam)]\<rparr>
                      else st\<lparr>outputs := outputs st @ animations\<rparr>)
           in forEach_team height matchTeamMap playersMap rest
                (st1\<lparr>panels := AList.update (name team) panel' (panels st),
                     idx := idx st + 1\<rparr>)))"

text \<open>
  The function: the panel map afterwards and the outputs. \<open>container\<close> says whether the
  \<open>.teams-container\<close> node exists. When the match was marked ended the function returns
  right after the loop. Otherwise a non-empty \<open>eliminatedTeams\<close> array is logged and
  sorted in place with the comparator \<open>team2.placement_rank - team1.placement_rank\<close> (a
  stable sort by descending placement rank: \<open>sort_key\<close> on the negated key); nothing reads
  the sorted array afterwards. Last, \<open>snapToPositions\<close> is scheduled when the pass is a
  refresh or the map has as many panels as there are teams to show.
\<close>

definition updateTotalLeaderboardOnUIThread ::
  "int \<Rightarrow> bool \<Rightarrow> (string \<times> LiveTeamPanel) list \<Rightarrow> Team2Data list \<Rightarrow> (string \<rightharpoonup> Team2Data) \<Rightarrow>
   (string \<rightharpoonup> Player2Data list) \<Rightarrow> bool \<Rightarrow> (string \<times> LiveTeamPanel) list \<times> pass_output list" where
  "updateTotalLeaderboardOnUIThread height container panels0 totalTeams matchTeamMap playersMap refresh =
     (if \<not> container then (panels0, [ContainerNotFound])
      else (let teamsToShow = take 16 totalTeams;
                st = forEach_team height matchTeamMap playersMap teamsToShow
                       \<lparr>panels = panels0, eliminatedTeams = [], idx = 1, matchEnded = False,
                        outputs = []\<rparr>
            in if matchEnded st then (panels st, outputs st @ [SkippingOverlayLog])
               else (panels st,
                     outputs st @
                     (if length (eliminatedTeams st) > 0
                      then (let sortedTeams = sort_key (\<lambda>t. - placement_rank t) (eliminatedTeams st)
                            in [ProcessingLog (length (eliminatedTeams st))])
                      else []) @
                     (if refresh \<or> length (panels st) = length teamsToShow
                      then [SnapToPositions teamsToShow] else []))))"

text \<open>The batches handed to the elimination overlay among the outputs of a pass.\<close>

fun overlay_batches :: "pass_output list \<Rightarrow> Team2Data list list" where
  "overlay_batches [] = []"
| "overlay_batches (OverlayEnqueue batch n # outs) = batch # overlay_batches outs"
| "overlay_batches (out # outs) = overlay_batches outs"

text \<open>
  A concrete pass over three teams on an empty panel map: the players of A and B are all
  dead, the player of C is alive. The placement rank of B is the parameter.
\<close>

definition team_named :: "string \<Rightarrow> int \<Rightarrow> int \<Rightarrow> Team2Data" where
  "team_named n r pr =
     \<lparr>name = n, team2_id = r, total_kills = 0, rank = r, total_score = 10,
      placement_rank = pr, team_eliminated = False\<rparr>"

definition player_of :: "string \<Rightarrow> string \<Rightarrow> Player2Data" where
  "player_of team dt =
     \<lparr>player_name = ''p'', team_name = team, team_id = 0,
      post_data_pb = Some \<lparr>death_type = dt\<rparr>, telemetry_pb = None\<rparr>"

definition pass_teams :: "int \<Rightarrow> Team2Data list" where
  "pass_teams pr = [team_named ''A'' 1 5, team_named ''B'' 2 pr, team_named ''C'' 3 0]"

definition pass_players :: "string \<rightharpoonup> Player2Data list" where
  "pass_players =
     [''A'' \<mapsto> [player_of ''A'' ''byplayer''],
      ''B'' \<mapsto> [player_of ''B'' ''byzone''],
      ''C'' \<mapsto> [player_of ''C'' ''alive'']]"

definition example_pass :: "int \<Rightarrow> (string \<times> LiveTeamPanel) list \<times> pass_output list" where
  "example_pass pr =
     updateTotalLeaderboardOnUIThread 32 True [] (pass_teams pr)
       (map_of (map (\<lambda>t. (name t, t)) (pass_teams pr))) pass_players False"

section \<open>WebSocket client (websocket-client.ts, the second module in src/shared/test-runner.ts)\<close>

text \<open>
  The client reacts to calls of its public methods and to events of the socket and of
  the reconnect timer. What it does to the outside is a list of outputs: callback
  invocations, the creation and closing of a socket, outbound messages, and
  \<open>setTimeout\<close>/\<open>clearTimeout\<close> for the reconnect timer. \<open>ws\<close> is the socket's ready state
  (\<open>None\<close> before the first socket), \<open>reconnectTimer\<close> whether a timer handle is
  held, the \<open>has...\<close> fields whether a callback is registered. The field
  \<open>reconnecting\<close> of the source is \<open>reconnecting_ws\<close> (the plain name is the dispatcher's).
  An incoming text is given as already parsed by \<open>JSON.parse\<close>: \<open>Unparsable\<close> when that
  throws, otherwise the \<open>code\<close>, \<open>data\<close> and \<open>message\<close> members.
\<close>

datatype ConnectionStatus = Disconnected | Connecting | Connected

datatype readyState = CONNECTING | OPEN | CLOSING | CLOSED

datatype outbound = Authenticate string | Raw string

datatype client_output =
    OnConnect bool bool string
  | OnDisconnect bool
  | OnMessage string bool
  | OnStatusChange ConnectionStatus
  | NewWebSocket
  | Sent outbound
  | WsClose
  | SetTimeout int
  | ClearTimeout

datatype wire_message = Unparsable | Envelope "int option" "string option" "string option"

record WebSocketClient =
  ws :: "readyState option"
  accessToken :: string
  closedByUser :: bool
  connected :: bool
  reconnecting_ws :: bool
  reconnectTimer :: bool
  hasOnConnect :: bool
  hasOnDisconnect :: bool
  hasOnMessage :: bool
  hasOnStatusChange :: bool

text \<open>\<open>reconnectDelay\<close> is initialised to 3000 and never assigned again.\<close>

definition reconnectDelay :: int where
  "reconnectDelay = 3000"

definition newWebSocketClient :: WebSocketClient where
  "newWebSocketClient =
     \<lparr>ws = None, accessToken = [], closedByUser = False, connected = False,
      reconnecting_ws = False, reconnectTimer = False, hasOnConnect = False,
      hasOnDisconnect = False, hasOnMessage = False, hasOnStatusChange = False\<rparr>"

definition updateStatus :: "WebSocketClient \<Rightarrow> ConnectionStatus \<Rightarrow> client_output list" where
  "updateStatus c status = (if hasOnStatusChange c then [OnStatusChange status] else [])"

definition reconnect :: "WebSocketClient \<Rightarrow> WebSocketClient \<times> client_output list" where
  "reconnect c =
     (c\<lparr>reconnectTimer := True\<rparr>,
      (if reconnectTimer c then [ClearTimeout] else []) @ [SetTimeout reconnectDelay])"

text \<open>\<open>sendMessage\<close> throws when the socket is not open: the error is \<open>Inl\<close>.\<close>

definition sendMessage :: "WebSocketClient \<Rightarrow> outbound \<Rightarrow> string + client_output list" where
  "sendMessage c message =
     (if ws c \<noteq> Some OPEN then Inl ''Connection is not open'' else Inr [Sent message])"

definition authenticate :: "WebSocketClient \<Rightarrow> string + client_output list" where
  "authenticate c = sendMessage c (Authenticate (accessToken c))"

text \<open>
  \<open>handleDisconnect\<close>: the disconnect callback, then either the reconnect (only when the
  client has been authenticated before and the argument says the user did not close), or
  the fall back to Disconnected.
\<close>

definition handleDisconnect :: "bool \<Rightarrow> WebSocketClient \<Rightarrow> WebSocketClient \<times> client_output list" where
  "handleDisconnect byUser c =
     (let out1 = (if hasOnDisconnect c then [OnDisconnect byUser] else [])
      in if connected c \<and> \<not> byUser
         then (let (c', out2) = reconnect c
               in (c', out1 @ updateStatus c Connecting @ out2))
         else (c\<lparr>connected := False\<rparr>, out1 @ updateStatus c Disconnected))"

text \<open>
  \<open>handleConnect\<close>: its \<open>reconnect\<close> and \<open>message\<close> arguments are only logged. A failed
  connect goes to \<open>handleDisconnect(false)\<close>.
\<close>

definition handleConnect ::
  "bool \<Rightarrow> bool \<Rightarrow> string \<Rightarrow> WebSocketClient \<Rightarrow> string + WebSocketClient \<times> client_output list" where
  "handleConnect succeed reconn message c =
     (if \<not> succeed then Inr (handleDisconnect False c)
      else (case authenticate c of Inl e \<Rightarrow> Inl e | Inr out \<Rightarrow> Inr (c, out)))"

text \<open>
  \<open>connectAsync\<close>: \<open>ctor_error\<close> is the message of the exception thrown by
  \<open>new WebSocket(url)\<close>, if it throws.
\<close>

definition connectAsync ::
  "bool \<Rightarrow> string option \<Rightarrow> WebSocketClient \<Rightarrow> string + WebSocketClient \<times> client_output list" where
  "connectAsync reconn ctor_error c =
     (let c1 = c\<lparr>reconnecting_ws := reconn\<rparr>;
          out1 = updateStatus c1 Connecting
      in case ctor_error of
           None \<Rightarrow> Inr (c1\<lparr>ws := Some CONNECTING\<rparr>, out1 @ [NewWebSocket])
         | Some errorMessage \<Rightarrow>
             (case handleConnect False reconn errorMessage c1 of
                Inl e \<Rightarrow> Inl e
              | Inr (c2, out2) \<Rightarrow> Inr (c2, out1 @ out2)))"

definition connect ::
  "string \<Rightarrow> string option \<Rightarrow> WebSocketClient \<Rightarrow> string + WebSocketClient \<times> client_output list" where
  "connect token ctor_error c =
     connectAsync False ctor_error (c\<lparr>accessToken := token, closedByUser := False\<rparr>)"

definition close :: "WebSocketClient \<Rightarrow> WebSocketClient \<times> client_output list" where
  "close c =
     (c\<lparr>closedByUser := True, reconnectTimer := False\<rparr>,
      (if reconnectTimer c then [ClearTimeout] else []) @
      (if ws c \<noteq> None then [WsClose] else []))"

definition handleAuthentication :: "WebSocketClient \<Rightarrow> WebSocketClient \<times> client_output list" where
  "handleAuthentication c =
     (let c1 = c\<lparr>connected := True\<rparr>
      in (c1, updateStatus c1 Connected @
              (if hasOnConnect c1 then [OnConnect True (reconnecting_ws c1) ''Authenticated''] else [])))"

definition handleMessage :: "wire_message \<Rightarrow> WebSocketClient \<Rightarrow> WebSocketClient \<times> client_output list" where
  "handleMessage wsMessage c =
     (case wsMessage of
        Unparsable \<Rightarrow> (c, updateStatus c Disconnected)
      | Envelope code dat msg \<Rightarrow>
          (let code' = (case code of None \<Rightarrow> - 1 | Some n \<Rightarrow> n)
           in if code' = 201 then handleAuthentication c
              else if code' = 200
              then (let eventData = (case dat of None \<Rightarrow> [] | Some s \<Rightarrow> s)
                    in if eventData = [] then (c, [])
                       else (c\<lparr>reconnecting_ws := False\<rparr>,
                             (if hasOnMessage c
                              then [OnMessage eventData (connected c \<and> reconnecting_ws c)]
                              else [])))
              else (c, updateStatus c Disconnected)))"

text \<open>
  The events a client sees, and the handler each one reaches. The \<open>open\<close> and \<open>error\<close>
  handlers carry the \<open>reconnect\<close> argument of the \<open>connectAsync\<close> call that registered
  them. The timer callback calls \<open>connectAsync(true)\<close>.
\<close>

datatype client_event =
    CallConnect string "string option"
  | CallClose
  | WsOpened bool
  | WsMessage wire_message
  | WsClosed
  | WsError bool string
  | ReconnectTimerFired "string option"

definition client_step ::
  "client_event \<Rightarrow> WebSocketClient \<Rightarrow> string + WebSocketClient \<times> client_output list" where
  "client_step ev c =
     (case ev of
        CallConnect token ctor_error \<Rightarrow> connect token ctor_error c
      | CallClose \<Rightarrow> Inr (close c)
      | WsOpened reconn \<Rightarrow> handleConnect True reconn ''OK'' (c\<lparr>ws := Some OPEN\<rparr>)
      | WsMessage m \<Rightarrow> Inr (handleMessage m c)
      | WsClosed \<Rightarrow> Inr (handleDisconnect (closedByUser c) (c\<lparr>ws := Some CLOSED\<rparr>))
      | WsError reconn message \<Rightarrow> handleConnect False reconn message c
      | ReconnectTimerFired ctor_error \<Rightarrow> connectAsync True ctor_error c)"

fun client_run ::
  "client_event list \<Rightarrow> WebSocketClient \<Rightarrow> string + WebSocketClient \<times> client_output list" where
  "client_run [] c = Inr (c, [])"
| "client_run (ev # evs) c =
     (case client_step ev c of
        Inl e \<Rightarrow> Inl e
      | Inr (c1, out1) \<Rightarrow>
          (case client_run evs c1 of
             Inl e \<Rightarrow> Inl e
           | Inr (c2, out2) \<Rightarrow> Inr (c2, out1 @ out2)))"

text \<open>A client with all four callbacks registered, before and after authentication.\<close>

definition listening_client :: WebSocketClient where
  "listening_client =
     newWebSocketClient\<lparr>hasOnConnect := True, hasOnDisconnect := True, hasOnMessage := True,
                        hasOnStatusChange := True\<rparr>"

definition authenticated_client :: WebSocketClient where
  "authenticated_client =
     listening_client\<lparr>ws := Some OPEN, accessToken := ''token'', connected := True\<rparr>"

subsection \<open>Properties of the match state manager\<close>

lemma areMatchIdsEqual_loop_iff:
  "length id1 = length id2 \<Longrightarrow>
   areMatchIdsEqual_loop id1 id2 i = (\<forall>k. i \<le> k \<and> k < length id1 \<longrightarrow> id1 ! k = id2 ! k)"
proof (induction id1 id2 i rule: areMatchIdsEqual_loop.induct)
  case (1 id1 id2 i)
  show ?case
  proof (cases "i < length id1")
    case False
    then show ?thesis by (auto simp: areMatchIdsEqual_loop.simps [of id1 id2 i])
  next
    case True
    show ?thesis
    proof (cases "id1 ! i = id2 ! i")
      case False
      with True show ?thesis
        by (auto simp: areMatchIdsEqual_loop.simps [of id1 id2 i])
    next
      case same: True
      have "areMatchIdsEqual_loop id1 id2 (Suc i) =
            (\<forall>k. Suc i \<le> k \<and> k < length id1 \<longrightarrow> id1 ! k = id2 ! k)"
        using "1.IH" True same "1.prems" by simp
      moreover have "(\<forall>k. Suc i \<le> k \<and> k < length id1 \<longrightarrow> id1 ! k = id2 ! k) =
                     (\<forall>k. i \<le> k \<and> k < length id1 \<longrightarrow> id1 ! k = id2 ! k)"
        using same by (metis Suc_leI le_neq_implies_less Suc_leD)
      ultimately show ?thesis
        using True same by (simp add: areMatchIdsEqual_loop.simps [of id1 id2 i])
    qed
  qed
qed

lemma areMatchIdsEqual_iff: "areMatchIdsEqual id1 id2 = (id1 = id2)"
proof (cases "length id1 = length id2")
  case False
  then show ?thesis by (auto simp: areMatchIdsEqual_def)
next
  case True
  then show ?thesis
    by (simp add: areMatchIdsEqual_def areMatchIdsEqual_loop_iff list_eq_iff_nth_eq)
qed

lemma shouldRefresh_iff:
  "shouldRefresh st x = (case matchId st of None \<Rightarrow> False | Some cur \<Rightarrow> x \<noteq> cur)"
  by (auto simp: shouldRefresh_def areMatchIdsEqual_iff split: option.splits)

lemma run_calls_append:
  "run_calls st (cs @ ds) =
     (let (st1, rs1) = run_calls st cs; (st2, rs2) = run_calls st1 ds in (st2, rs1 @ rs2))"
proof (induction st cs rule: run_calls.induct)
  case (1 st)
  then show ?case by (simp split: prod.splits)
next
  case (2 st x cs)
  then show ?case by (simp split: prod.splits)
next
  case (3 st x tid now cs)
  then show ?case by (simp split: prod.splits)
qed

lemma matchId_run_calls:
  "matchId (fst (run_calls st cs)) =
     (case last_stored cs of None \<Rightarrow> matchId st | Some y \<Rightarrow> Some y)"
proof (induction st cs rule: run_calls.induct)
  case (1 st)
  then show ?case by simp
next
  case (2 st x cs)
  then show ?case by (cases "run_calls st cs") simp
next
  case (3 st x tid now cs)
  then show ?case by (simp add: updateState_def split: option.splits)
qed

lemma with_id_tuple:
  "with_id tid (x, r, now) = (\<lparr>msg_matchId = Some x, msg_tournamentId = tid\<rparr>, r, now)"
  by (simp add: with_id_def)

lemma deliver_all_ids:
  "deliver_all st (map (with_id tid) items) =
     map Some (expected_decisions (matchId st) (map fst items))"
proof (induction items arbitrary: st)
  case Nil
  then show ?case by simp
next
  case (Cons item items)
  obtain x r now where item: "item = (x, r, now)" by (cases item) auto
  show ?case
    by (simp add: item with_id_tuple onUpdate_refresh_def Let_def Cons.IH
        shouldRefresh_iff updateState_def)
qed

text \<open>
  C1. A \<open>shouldRefresh\<close> call made before any \<open>updateState\<close> returns false; after any
  sequence of calls it returns true exactly when its argument is not, byte for byte, the
  id most recently given to \<open>updateState\<close>. Run through the delivery callback, the
  decisions for a sequence of messages are a function of the match ids alone: the
  reconnecting flags do not enter.
\<close>

theorem shouldRefresh_sequence:
  "shouldRefresh initialMatchState x = False
   \<and> snd (run_calls initialMatchState (pre @ [ShouldRefresh x])) =
       snd (run_calls initialMatchState pre) @
       [case last_stored pre of None \<Rightarrow> False | Some cur \<Rightarrow> x \<noteq> cur]
   \<and> deliver_all initialMatchState (map (with_id tid) items) =
       map Some (expected_decisions None (map fst items))"
proof -
  have a: "shouldRefresh initialMatchState x = False"
    by (simp add: shouldRefresh_def initialMatchState_def)
  obtain st1 rs1 where run: "run_calls initialMatchState pre = (st1, rs1)"
    by (cases "run_calls initialMatchState pre") auto
  have "matchId st1 = last_stored pre"
    using matchId_run_calls [of initialMatchState pre] run
    by (simp add: initialMatchState_def split: option.splits)
  then have b: "snd (run_calls initialMatchState (pre @ [ShouldRefresh x])) =
       snd (run_calls initialMatchState pre) @
       [case last_stored pre of None \<Rightarrow> False | Some cur \<Rightarrow> x \<noteq> cur]"
    by (simp add: run_calls_append run shouldRefresh_iff)
  have c: "deliver_all initialMatchState (map (with_id tid) items) =
       map Some (expected_decisions None (map fst items))"
    using deliver_all_ids [of initialMatchState tid items] by (simp add: initialMatchState_def)
  from a b c show ?thesis by simp
qed

subsection \<open>Properties of the message dispatcher\<close>

lemma onTimerExpired_idle:
  "now - latestProcessTime d < intervalMs \<or> eventQueue d = [] \<Longrightarrow>
   onTimerExpired parse now fin d = (d, [])"
  by (auto simp: onTimerExpired_def)

lemma onTimerExpired_due:
  assumes "intervalMs \<le> now - latestProcessTime d" and "eventQueue d \<noteq> []"
  shows "onTimerExpired parse now fin d =
           (d\<lparr>eventQueue := drop 2 (eventQueue d), latestProcessTime := fin\<rparr>,
            process parse (hasOnUpdate d) (selected (eventQueue d)))"
proof (cases "eventQueue d")
  case Nil
  with assms show ?thesis by simp
next
  case (Cons e1 q1)
  show ?thesis
  proof (cases q1)
    case Nil
    with Cons assms show ?thesis
      by (simp add: onTimerExpired_def selected_def)
  next
    case (Cons e2 q2)
    with \<open>eventQueue d = e1 # q1\<close> assms show ?thesis
      by (simp add: onTimerExpired_def selected_def)
  qed
qed

lemma process_cases:
  "process parse cb e =
     (case parse (data e) of None \<Rightarrow> [] | Some m \<Rightarrow> if cb then [(m, reconnecting e)] else [])"
  by (simp add: process_def)

lemma length_process: "length (process parse cb e) \<le> Suc 0"
  by (simp add: process_def split: option.splits)

lemma onTimerExpired_calls: "length (snd (onTimerExpired parse now fin d)) \<le> Suc 0"
  by (simp add: onTimerExpired_def length_process split: list.splits)

lemma onTimerExpired_fired:
  "snd (onTimerExpired parse now fin d) \<noteq> [] \<Longrightarrow>
   latestProcessTime d + intervalMs \<le> now \<and> latestProcessTime (fst (onTimerExpired parse now fin d)) = fin"
  by (auto simp: onTimerExpired_def split: list.splits if_splits)

lemma onTimerExpired_time:
  "latestProcessTime (fst (onTimerExpired parse now fin d)) = latestProcessTime d \<or>
   latestProcessTime (fst (onTimerExpired parse now fin d)) = fin"
  by (auto simp: onTimerExpired_def split: list.splits if_splits)

lemma spaced_Cons:
  "spaced ts \<Longrightarrow> \<forall>x\<in>set ts. t + intervalMs \<le> x \<Longrightarrow> spaced (t # ts)"
  by (cases ts) auto

lemma latestProcessTime_stop: "latestProcessTime (stop d) = latestProcessTime d"
  by (simp add: stop_def)

lemma latestProcessTime_enqueue: "latestProcessTime (enqueue x d) = latestProcessTime d"
  by (simp add: enqueue_def)

lemma latestProcessTime_clear: "latestProcessTime (clear d) = latestProcessTime d"
  by (simp add: clear_def)

lemma run_paced:
  "clock_ok t es \<Longrightarrow> latestProcessTime d \<le> t \<Longrightarrow>
   (\<forall>x\<in>set (map fst (snd (run_dispatcher parse d es))). latestProcessTime d + intervalMs \<le> x)
   \<and> spaced (map fst (snd (run_dispatcher parse d es)))"
proof (induction es arbitrary: t d)
  case Nil
  then show ?case by simp
next
  case (Cons e es)
  show ?case
  proof (cases e)
    case (Start now)
    have "latestProcessTime (start now d) \<le> now" "latestProcessTime d \<le> latestProcessTime (start now d)"
      using Cons.prems Start by (auto simp: start_def)
    moreover have "clock_ok now es" using Cons.prems Start by simp
    ultimately show ?thesis
      using Cons.IH [of now "start now d"] Start by fastforce
  next
    case Stop
    then show ?thesis
      using Cons.IH [of t "stop d" ] Cons.prems by (simp add: latestProcessTime_stop)
  next
    case (Enqueue x)
    then show ?thesis
      using Cons.IH [of t "enqueue x d" ] Cons.prems by (simp add: latestProcessTime_enqueue)
  next
    case Clear
    then show ?thesis
      using Cons.IH [of t "clear d" ] Cons.prems by (simp add: latestProcessTime_clear)
  next
    case (Tick now fin)
    show ?thesis
    proof (cases "intervalTimer d")
      case False
      have "clock_ok fin es" "latestProcessTime d \<le> fin" using Cons.prems Tick by auto
      then show ?thesis using Cons.IH [of fin d] Tick False by simp
    next
      case True
      obtain d1 calls where step: "onTimerExpired parse now fin d = (d1, calls)"
        by (cases "onTimerExpired parse now fin d") auto
      obtain d2 later where rest: "run_dispatcher parse d1 es = (d2, later)"
        by (cases "run_dispatcher parse d1 es") auto
      have out: "snd (run_dispatcher parse d (e # es)) = map (\<lambda>c. (now, c)) calls @ later"
        using Tick True step rest by simp
      have ck: "clock_ok fin es" "t \<le> now" "now \<le> fin" using Cons.prems Tick by auto
      have lpt: "latestProcessTime d1 = latestProcessTime d \<or> latestProcessTime d1 = fin"
        using onTimerExpired_time [of parse now fin d] step by simp
      then have le: "latestProcessTime d1 \<le> fin" using Cons.prems ck by auto
      have ih: "(\<forall>x\<in>set (map fst later). latestProcessTime d1 + intervalMs \<le> x) \<and> spaced (map fst later)"
        using Cons.IH [OF ck(1) le] rest by simp
      have ge: "latestProcessTime d \<le> latestProcessTime d1"
        using lpt Cons.prems ck by auto
      show ?thesis
      proof (cases calls)
        case Nil
        then show ?thesis using out ih ge by auto
      next
        case (Cons c cs)
        then have single: "calls = [c]"
          using onTimerExpired_calls [of parse now fin d] step by simp
        have fired: "latestProcessTime d + intervalMs \<le> now" "latestProcessTime d1 = fin"
          using onTimerExpired_fired [of parse now fin d] step Cons by simp_all
        have later_ge: "\<forall>x\<in>set (map fst later). now + intervalMs \<le> x"
          using ih fired ck by auto
        have sp: "spaced (now # map fst later)"
          using spaced_Cons [of "map fst later" now] ih later_ge by blast
        have "\<forall>x\<in>set (now # map fst later). latestProcessTime d + intervalMs \<le> x"
          using later_ge fired by (auto simp: intervalMs_def)
        then show ?thesis
          using out single sp by simp
      qed
    qed
  qed
qed

lemma stopped_run_silent:
  "\<not> intervalTimer d \<Longrightarrow> no_start es \<Longrightarrow> snd (run_dispatcher parse d es) = []"
proof (induction es arbitrary: d)
  case Nil
  then show ?case by simp
next
  case (Cons e es)
  show ?case
  proof (cases e)
    case (Start now)
    with Cons.prems show ?thesis by simp
  next
    case Stop
    with Cons.prems Cons.IH [of "stop d"] show ?thesis by (simp add: stop_def)
  next
    case (Enqueue x)
    with Cons.prems Cons.IH [of "enqueue x d"] show ?thesis by (simp add: enqueue_def)
  next
    case Clear
    with Cons.prems Cons.IH [of "clear d"] show ?thesis by (simp add: clear_def)
  next
    case (Tick now fin)
    with Cons.prems Cons.IH [of d] show ?thesis by simp
  qed
qed

text \<open>
  C2. A tick that comes less than 1500 ms after the last processed delivery, or that finds
  the queue empty, changes nothing and calls nothing. An eligible tick takes exactly one
  entry for delivery: the head of a one-entry queue, otherwise the second-oldest entry,
  the head being dropped without a trace. It removes the entries it looked at and calls
  the callback at most once; exactly once, with the decoded entry and its flag, when the
  payload decodes and a callback is set. In every run whose clock readings never go
  back, the ticks that call back are at least 1500 ms apart, whatever was enqueued.
\<close>

theorem tick_delivers_second_oldest:
  "(now - latestProcessTime d < intervalMs \<or> eventQueue d = [] \<longrightarrow>
      onTimerExpired parse now fin d = (d, []))
   \<and> (intervalMs \<le> now - latestProcessTime d \<and> eventQueue d \<noteq> [] \<longrightarrow>
        onTimerExpired parse now fin d =
          (d\<lparr>eventQueue := drop 2 (eventQueue d), latestProcessTime := fin\<rparr>,
           process parse (hasOnUpdate d)
             (if length (eventQueue d) = 1 then eventQueue d ! 0 else eventQueue d ! 1))
        \<and> length (snd (onTimerExpired parse now fin d)) \<le> 1
        \<and> (\<forall>m. hasOnUpdate d \<and> parse (data (selected (eventQueue d))) = Some m \<longrightarrow>
              snd (onTimerExpired parse now fin d) = [(m, reconnecting (selected (eventQueue d)))]))
   \<and> (clock_ok t es \<and> latestProcessTime d \<le> t \<longrightarrow>
        spaced (map fst (snd (run_dispatcher parse d es))))"
proof -
  have a: "now - latestProcessTime d < intervalMs \<or> eventQueue d = [] \<longrightarrow>
      onTimerExpired parse now fin d = (d, [])"
    using onTimerExpired_idle [of now d parse fin] by blast
  have b: "intervalMs \<le> now - latestProcessTime d \<and> eventQueue d \<noteq> [] \<longrightarrow>
        onTimerExpired parse now fin d =
          (d\<lparr>eventQueue := drop 2 (eventQueue d), latestProcessTime := fin\<rparr>,
           process parse (hasOnUpdate d)
             (if length (eventQueue d) = 1 then eventQueue d ! 0 else eventQueue d ! 1))"
    using onTimerExpired_due [of now d parse fin] by (simp add: selected_def)
  have c: "length (snd (onTimerExpired parse now fin d)) \<le> 1"
    using onTimerExpired_calls [of parse now fin d] by simp
  have d: "intervalMs \<le> now - latestProcessTime d \<and> eventQueue d \<noteq> [] \<longrightarrow>
        (\<forall>m. hasOnUpdate d \<and> parse (data (selected (eventQueue d))) = Some m \<longrightarrow>
              snd (onTimerExpired parse now fin d) = [(m, reconnecting (selected (eventQueue d)))])"
    using onTimerExpired_due [of now d parse fin] by (simp add: process_def)
  have e: "clock_ok t es \<and> latestProcessTime d \<le> t \<longrightarrow>
        spaced (map fst (snd (run_dispatcher parse d es)))"
    using run_paced [of t es d parse] by blast
  from a b c d e show ?thesis by blast
qed

theorem tick_delivers_second_oldest_witness:
  "intervalMs \<le> 1500 - latestProcessTime three_queued
   \<and> eventQueue three_queued \<noteq> []
   \<and> onTimerExpired Some 1500 1500 three_queued =
       (three_queued\<lparr>eventQueue := [msg3], latestProcessTime := 1500\<rparr>, [(''m2'', False)])
   \<and> 1400 - latestProcessTime three_queued < intervalMs
   \<and> onTimerExpired Some 1400 1400 three_queued = (three_queued, [])
   \<and> clock_ok 0 [Tick 1500 1500, Tick 1600 1600, Tick 3000 3001]
   \<and> spaced (map fst (snd (run_dispatcher Some three_queued
        [Tick 1500 1500, Tick 1600 1600, Tick 3000 3001])))"
  using tick_delivers_second_oldest [of 1500 three_queued Some 1500 0
          "[Tick 1500 1500, Tick 1600 1600, Tick 3000 3001]"]
        tick_delivers_second_oldest [of 1400 three_queued Some 1400 0 "[]"]
  by (simp add: three_queued_def msg1_def msg2_def msg3_def intervalMs_def selected_def
      onTimerExpired_def process_def)

text \<open>
  C9. When the decoder throws on the entry an eligible tick selected, no callback is made
  for it, the entry (and the older head before it, when the queue held two or more) is
  gone from the queue, and \<open>latestProcessTime\<close> still moves to the clock reading taken
  after the \<open>catch\<close>. Whatever happens next (enqueues, stops, starts, ticks) with a clock
  that does not go back, no callback is made before 1500 ms after the failed tick.
\<close>

theorem decode_failure_consumes_pacing_window:
  assumes "intervalMs \<le> now - latestProcessTime d" and "eventQueue d \<noteq> []"
    and "parse (data (selected (eventQueue d))) = None" and "now \<le> fin"
  shows "snd (onTimerExpired parse now fin d) = []
     \<and> latestProcessTime (fst (onTimerExpired parse now fin d)) = fin
     \<and> eventQueue (fst (onTimerExpired parse now fin d)) = drop 2 (eventQueue d)
     \<and> (clock_ok fin es \<longrightarrow>
          (\<forall>x\<in>set (map fst (snd (run_dispatcher parse (fst (onTimerExpired parse now fin d)) es))).
             now + intervalMs \<le> x))"
proof -
  let ?d' = "fst (onTimerExpired parse now fin d)"
  have step: "onTimerExpired parse now fin d =
           (d\<lparr>eventQueue := drop 2 (eventQueue d), latestProcessTime := fin\<rparr>,
            process parse (hasOnUpdate d) (selected (eventQueue d)))"
    using onTimerExpired_due [OF assms(1,2)] .
  have calls: "snd (onTimerExpired parse now fin d) = []"
    using step assms(3) by (simp add: process_def)
  have lpt: "latestProcessTime ?d' = fin" and q: "eventQueue ?d' = drop 2 (eventQueue d)"
    using step by simp_all
  have "\<forall>x\<in>set (map fst (snd (run_dispatcher parse ?d' es))). now + intervalMs \<le> x"
    if "clock_ok fin es"
  proof -
    have "\<forall>x\<in>set (map fst (snd (run_dispatcher parse ?d' es))).
            latestProcessTime ?d' + intervalMs \<le> x"
      using run_paced [of fin es ?d' parse] that lpt by simp
    then show ?thesis using lpt assms(4) by auto
  qed
  then show ?thesis using calls lpt q by blast
qed

theorem decode_failure_consumes_pacing_window_witness:
  "intervalMs \<le> 1500 - latestProcessTime three_queued
   \<and> eventQueue three_queued \<noteq> []
   \<and> (\<lambda>s. if s = ''m2'' then None else Some s) (data (selected (eventQueue three_queued))) = None
   \<and> snd (onTimerExpired (\<lambda>s. if s = ''m2'' then None else Some s) 1500 1502 three_queued) = []
   \<and> latestProcessTime (fst (onTimerExpired (\<lambda>s. if s = ''m2'' then None else Some s) 1500 1502 three_queued)) = 1502
   \<and> eventQueue (fst (onTimerExpired (\<lambda>s. if s = ''m2'' then None else Some s) 1500 1502 three_queued)) = [msg3]
   \<and> clock_ok 1502 [Tick 1600 1600, Tick 3100 3100]
   \<and> snd (run_dispatcher (\<lambda>s. if s = ''m2'' then None else Some s)
        (fst (onTimerExpired (\<lambda>s. if s = ''m2'' then None else Some s) 1500 1502 three_queued))
        [Tick 1600 1600, Tick 3100 3100]) = [(3100, ''m3'', False)]"
  using decode_failure_consumes_pacing_window
          [of 1500 three_queued "\<lambda>s. if s = ''m2'' then None else Some s" 1502
              "[Tick 1600 1600, Tick 3100 3100]"]
  by (simp add: three_queued_def msg1_def msg2_def msg3_def intervalMs_def selected_def
      onTimerExpired_def process_def)

text \<open>
  C3. The scenario on the code: a dispatcher started at time 0, three messages enqueued
  200 ms apart before any tick is eligible, ticks every 100 ms. The first eligible tick,
  at 1500, makes exactly one callback, but with the second message, not the last: the
  first message is dropped and the last one stays queued. Left running, the dispatcher
  delivers the last message at the tick of 3000, so the burst leads to two callbacks.
\<close>

theorem three_queued_delivers_second:
  "run_dispatcher Some (newMessageDispatcher True 0) (burst_of_three 11) =
     (\<lparr>eventQueue = [msg3], intervalTimer = True, latestProcessTime = 1500, hasOnUpdate = True\<rparr>,
      [(1500, ''m2'', False)])
   \<and> snd (run_dispatcher Some (newMessageDispatcher True 0) (burst_of_three 26)) =
       [(1500, ''m2'', False), (3000, ''m3'', False)]"
  by code_simp

text \<open>
  C8, as stated, fails: \<open>stop\<close> only clears the interval. A message enqueued before
  \<open>stop()\<close> is still queued afterwards, and a later \<open>start()\<close> delivers it.
\<close>

theorem stop_keeps_queue_counterexample:
  "eventQueue (stop (enqueue msg1 (start 0 (newMessageDispatcher True 0)))) = [msg1]
   \<and> snd (run_dispatcher Some (newMessageDispatcher True 0)
        [Start 0, Enqueue msg1, Stop, Start 100, Tick 1600 1600]) = [(1600, ''m1'', False)]"
  by (simp add: newMessageDispatcher_def start_def stop_def enqueue_def onTimerExpired_def
      process_def intervalMs_def msg1_def)

text \<open>
  C8, amended. After \<open>stop()\<close> the interval is cleared, so as long as \<open>start\<close> is not
  called again no callback is made, whatever is enqueued and however often a timer would
  have fired. \<open>stop()\<close> itself leaves the queue as it was; it is \<open>clear()\<close> (which
  \<open>TestRunner.stop\<close> calls right after \<open>dispatcher.stop()\<close>) that drops the buffered
  messages, after which a later \<open>start()\<close> finds nothing to deliver.
\<close>

theorem stop_halts_tick_keeps_queue:
  "intervalTimer (stop d) = False
   \<and> eventQueue (stop d) = eventQueue d
   \<and> (no_start es \<longrightarrow> snd (run_dispatcher parse (stop d) es) = [])
   \<and> eventQueue (clear (stop d)) = []
   \<and> onTimerExpired parse t1 t2 (start now (clear (stop d))) = (start now (clear (stop d)), [])"
proof -
  have off: "\<not> intervalTimer (stop d)" by (simp add: stop_def)
  have q: "eventQueue (stop d) = eventQueue d" by (simp add: stop_def)
  have silent: "no_start es \<longrightarrow> snd (run_dispatcher parse (stop d) es) = []"
    using stopped_run_silent [OF off] by blast
  have cl: "eventQueue (clear (stop d)) = []" by (simp add: clear_def)
  have "eventQueue (start now (clear (stop d))) = []"
    by (simp add: start_def clear_def)
  then have idle: "onTimerExpired parse t1 t2 (start now (clear (stop d))) =
      (start now (clear (stop d)), [])"
    using onTimerExpired_idle [of t1 "start now (clear (stop d))" parse t2] by blast
  from off q silent cl idle show ?thesis by blast
qed

theorem stop_halts_tick_keeps_queue_witness:
  "no_start [Tick 5000 5000, Enqueue msg1, Tick 7000 7000]
   \<and> snd (run_dispatcher Some (stop three_queued)
        [Tick 5000 5000, Enqueue msg1, Tick 7000 7000]) = ([] :: (int \<times> string \<times> bool) list)
   \<and> eventQueue (stop three_queued) = [msg1, msg2, msg3]"
  using stop_halts_tick_keeps_queue
          [where d = three_queued and es = "[Tick 5000 5000, Enqueue msg1, Tick 7000 7000]"
             and parse = Some and ?t1.0 = 0 and ?t2.0 = 0 and now = 0]
  by (simp add: three_queued_def stop_def enqueue_def)

subsection \<open>Properties of the team panel\<close>

lemma updatePanel_justEliminated:
  "snd (snd (updatePanel h panel team mt pm i r)) =
     (case pm (name team) of
        None \<Rightarrow> False
      | Some ps \<Rightarrow> ps \<noteq> [] \<and> list_all player_not_alive ps \<and> \<not> eliminated panel)"
  by (auto simp: updatePanel_def handleElimination_def handlePositionAndAnimation_def
      setIndexAndPosition_def Let_def split: option.splits prod.splits if_splits)

lemma updatePanel_eliminated:
  "eliminated (fst (updatePanel h panel team mt pm i r)) =
     (case pm (name team) of
        None \<Rightarrow> False
      | Some ps \<Rightarrow> ps \<noteq> [] \<and> list_all player_not_alive ps)"
  by (auto simp: updatePanel_def handleElimination_def handlePositionAndAnimation_def
      setIndexAndPosition_def Let_def split: option.splits prod.splits if_splits)

lemma updatePanel_element:
  "\<not> (case pm (name team) of None \<Rightarrow> False | Some ps \<Rightarrow> ps \<noteq> [] \<and> list_all player_not_alive ps)
   \<Longrightarrow> opacity (element (fst (updatePanel h panel team mt pm i r))) = ''1.0''
     \<and> ''eliminated'' \<notin> set (classList (element (fst (updatePanel h panel team mt pm i r))))"
  by (auto simp: updatePanel_def handleElimination_def handlePositionAndAnimation_def
      setIndexAndPosition_def setTop_def classList_remove_def Let_def
      split: option.splits prod.splits if_splits)

lemma updatePanel_effects:
  "fst (snd (updatePanel h panel team mt pm i r)) =
     snd (handlePositionAndAnimation
            (panel\<lparr>teamData := team\<rparr>) i ((i - 1) * h) r)"
  by (simp add: updatePanel_def handleElimination_def handlePositionAndAnimation_def
      setIndexAndPosition_def Let_def split: option.splits prod.splits if_splits)

lemma updatePanel_previousRank:
  "previousRank (fst (updatePanel h panel team mt pm i r)) = rank team"
  by (simp add: updatePanel_def handleElimination_def handlePositionAndAnimation_def
      setIndexAndPosition_def Let_def split: option.splits prod.splits if_splits)

lemma updatePanel_controller:
  "controller (fst (updatePanel h panel team mt pm i r)) =
     (controller panel)\<lparr>prevPosition :=
        (if currentIndex (controller panel) \<ge> 0
         then currentIndex (controller panel) * panelHeight (controller panel) else - 1),
        currentIndex := i\<rparr>"
  by (simp add: updatePanel_def handleElimination_def handlePositionAndAnimation_def
      setIndexAndPosition_def Let_def split: option.splits prod.splits if_splits)

text \<open>
  C6. \<open>updatePanel\<close> called for a team whose current-match roster is non-empty and all
  not alive, on a panel not yet marked eliminated, returns true; called again right away
  with the same roster it returns false. With an empty or absent roster (the team is not
  in the match) it returns false, and so it does on a panel already marked eliminated.
\<close>

theorem justEliminated_once:
  "(pm (name team) = Some ps \<and> ps \<noteq> [] \<and> list_all player_not_alive ps \<and> \<not> eliminated panel \<longrightarrow>
      snd (snd (updatePanel h panel team mt pm i r)) = True
      \<and> snd (snd (updatePanel h2 (fst (updatePanel h panel team mt pm i r)) team mt2 pm i2 r2)) = False)
   \<and> (pm (name team) = None \<or> pm (name team) = Some [] \<longrightarrow>
        snd (snd (updatePanel h panel team mt pm i r)) = False)
   \<and> (eliminated panel \<longrightarrow> snd (snd (updatePanel h panel team mt pm i r)) = False)"
  by (auto simp: updatePanel_justEliminated updatePanel_eliminated split: option.splits)

theorem justEliminated_once_witness:
  "all_dead_roster (name (team_T 3)) = Some [dead_player, dead_player]
   \<and> [dead_player, dead_player] \<noteq> []
   \<and> list_all player_not_alive [dead_player, dead_player]
   \<and> \<not> eliminated (placed_panel 3)
   \<and> snd (snd (updatePanel 32 (placed_panel 3) (team_T 3) (team_T 3) all_dead_roster 1 False)) = True
   \<and> snd (snd (updatePanel 32
        (fst (updatePanel 32 (placed_panel 3) (team_T 3) (team_T 3) all_dead_roster 1 False))
        (team_T 3) (team_T 3) all_dead_roster 1 False)) = False
   \<and> Map.empty (name (team_T 3)) = (None :: Player2Data list option)
   \<and> snd (snd (updatePanel 32 (placed_panel 3) (team_T 3) (team_T 3) Map.empty 1 False)) = False"
proof -
  have el: "\<not> eliminated (placed_panel 3)"
    by (simp add: placed_panel_def updatePanel_eliminated one_alive_roster_def team_T_def
        alive_player_def dead_player_def player_not_alive_def)
  have roster: "all_dead_roster (name (team_T 3)) = Some [dead_player, dead_player]"
    "list_all player_not_alive [dead_player, dead_player]"
    by (simp_all add: all_dead_roster_def team_T_def dead_player_def player_not_alive_def)
  show ?thesis
    using el roster
      justEliminated_once [where pm = all_dead_roster and team = "team_T 3"
        and ps = "[dead_player, dead_player]" and panel = "placed_panel 3" and h = 32
        and mt = "team_T 3" and i = 1 and r = False and ?h2.0 = 32 and ?mt2.0 = "team_T 3"
        and ?i2.0 = 1 and ?r2.0 = False]
      justEliminated_once [where pm = Map.empty and team = "team_T 3"
        and panel = "placed_panel 3" and h = 32
        and mt = "team_T 3" and i = 1 and r = False]
    by simp
qed

text \<open>
  C10. The eliminated mark is not permanent. \<open>updatePanel\<close> on a panel marked eliminated,
  with a roster in which at least one player is alive, returns false, resets the mark,
  removes the \<open>eliminated\<close> class and restores the opacity; a later call with a
  non-empty, all not alive roster then returns true again.
\<close>

theorem eliminated_latch_resets:
  "eliminated panel \<and> pm (name team) = Some ps \<and> (\<exists>p\<in>set ps. \<not> player_not_alive p) \<longrightarrow>
     snd (snd (updatePanel h panel team mt pm i r)) = False
     \<and> eliminated (fst (updatePanel h panel team mt pm i r)) = False
     \<and> ''eliminated'' \<notin> set (classList (element (fst (updatePanel h panel team mt pm i r))))
     \<and> opacity (element (fst (updatePanel h panel team mt pm i r))) = ''1.0''
     \<and> (pm2 (name team2) = Some ps2 \<and> ps2 \<noteq> [] \<and> list_all player_not_alive ps2 \<longrightarrow>
          snd (snd (updatePanel h2 (fst (updatePanel h panel team mt pm i r))
                      team2 mt2 pm2 i2 r2)) = True)"
proof (intro impI)
  assume a: "eliminated panel \<and> pm (name team) = Some ps \<and> (\<exists>p\<in>set ps. \<not> player_not_alive p)"
  then have notall: "\<not> list_all player_not_alive ps"
    by (auto simp: list_all_iff)
  let ?p1 = "fst (updatePanel h panel team mt pm i r)"
  have j: "snd (snd (updatePanel h panel team mt pm i r)) = False"
    using a by (simp add: updatePanel_justEliminated)
  have e: "eliminated ?p1 = False"
    using a notall by (simp add: updatePanel_eliminated)
  have st: "''eliminated'' \<notin> set (classList (element ?p1))" "opacity (element ?p1) = ''1.0''"
    using updatePanel_element [of pm team h panel mt i r] a notall by simp_all
  have again: "pm2 (name team2) = Some ps2 \<and> ps2 \<noteq> [] \<and> list_all player_not_alive ps2 \<longrightarrow>
          snd (snd (updatePanel h2 ?p1 team2 mt2 pm2 i2 r2)) = True"
    using e by (simp add: updatePanel_justEliminated)
  from j e st again
  show "snd (snd (updatePanel h panel team mt pm i r)) = False
     \<and> eliminated ?p1 = False
     \<and> ''eliminated'' \<notin> set (classList (element ?p1))
     \<and> opacity (element ?p1) = ''1.0''
     \<and> (pm2 (name team2) = Some ps2 \<and> ps2 \<noteq> [] \<and> list_all player_not_alive ps2 \<longrightarrow>
          snd (snd (updatePanel h2 ?p1 team2 mt2 pm2 i2 r2)) = True)"
    by blast
qed

theorem eliminated_latch_resets_witness:
  "eliminated eliminated_panel
   \<and> one_alive_roster (name (team_T 3)) = Some [dead_player, alive_player]
   \<and> \<not> player_not_alive alive_player
   \<and> eliminated (fst (updatePanel 32 eliminated_panel (team_T 3) (team_T 3) one_alive_roster 1 False)) = False
   \<and> all_dead_roster (name (team_T 3)) = Some [dead_player, dead_player]
   \<and> list_all player_not_alive [dead_player, dead_player]
   \<and> snd (snd (updatePanel 32
        (fst (updatePanel 32 eliminated_panel (team_T 3) (team_T 3) one_alive_roster 1 False))
        (team_T 3) (team_T 3) all_dead_roster 1 False)) = True"
proof -
  have el: "eliminated eliminated_panel"
    by (simp add: eliminated_panel_def updatePanel_eliminated all_dead_roster_def team_T_def
        dead_player_def player_not_alive_def)
  have r1: "one_alive_roster (name (team_T 3)) = Some [dead_player, alive_player]"
    "\<not> player_not_alive alive_player"
    by (simp_all add: one_alive_roster_def team_T_def alive_player_def player_not_alive_def)
  have r2: "all_dead_roster (name (team_T 3)) = Some [dead_player, dead_player]"
    "list_all player_not_alive [dead_player, dead_player]"
    by (simp_all add: all_dead_roster_def team_T_def dead_player_def player_not_alive_def)
  have ex: "\<exists>p\<in>set [dead_player, alive_player]. \<not> player_not_alive p"
    using r1(2) by simp
  show ?thesis
    using el r1 r2 ex
      eliminated_latch_resets [where panel = eliminated_panel and pm = one_alive_roster
        and team = "team_T 3" and ps = "[dead_player, alive_player]" and h = 32
        and mt = "team_T 3" and i = 1 and r = False and ?pm2.0 = all_dead_roster
        and ?team2.0 = "team_T 3" and ?ps2.0 = "[dead_player, dead_player]" and ?h2.0 = 32
        and ?mt2.0 = "team_T 3" and ?i2.0 = 1 and ?r2.0 = False]
    by blast
qed

text \<open>
  C7. For a panel past its initial placement (\<open>PrevPosition\<close> not negative) that holds a
  recorded rank (ranks are 1-based, so it is positive), an update outside a refresh
  starts the rank-up animation when the new rank is lower than the recorded one, the
  rank-down animation when it is higher, and none when they are equal; the display index
  does not enter. The new rank becomes the recorded one.
\<close>

theorem rank_change_by_recorded_rank:
  "0 \<le> prevPosition (controller panel) \<and> 0 < previousRank panel \<longrightarrow>
     fst (snd (updatePanel h panel team mt pm i False)) =
       (if rank team < previousRank panel then [Inkwell Up]
        else if previousRank panel < rank team then [Inkwell Down]
        else [])
     \<and> previousRank (fst (updatePanel h panel team mt pm i False)) = rank team"
  by (auto simp: updatePanel_effects updatePanel_previousRank handlePositionAndAnimation_def
      setIndexAndPosition_def Let_def)

theorem rank_change_by_recorded_rank_witness:
  "0 \<le> prevPosition (controller (placed_panel 5)) \<and> 0 < previousRank (placed_panel 5)
   \<and> fst (snd (updatePanel 32 (placed_panel 5) (team_T 3) (team_T 3) one_alive_roster 7 False)) = [Inkwell Up]
   \<and> 0 \<le> prevPosition (controller (placed_panel 3)) \<and> 0 < previousRank (placed_panel 3)
   \<and> fst (snd (updatePanel 32 (placed_panel 3) (team_T 5) (team_T 5) one_alive_roster 2 False)) = [Inkwell Down]
   \<and> fst (snd (updatePanel 32 (placed_panel 3) (team_T 3) (team_T 3) one_alive_roster 9 False)) = []"
proof -
  have p5: "0 \<le> prevPosition (controller (placed_panel 5))" "0 < previousRank (placed_panel 5)"
    by (simp_all add: placed_panel_def updatePanel_controller updatePanel_previousRank
        newLiveTeamPanel_def newPanelAnimationController_def team_T_def)
  have p3: "0 \<le> prevPosition (controller (placed_panel 3))" "0 < previousRank (placed_panel 3)"
    by (simp_all add: placed_panel_def updatePanel_controller updatePanel_previousRank
        newLiveTeamPanel_def newPanelAnimationController_def team_T_def)
  have r5: "previousRank (placed_panel 5) = 5" and r3: "previousRank (placed_panel 3) = 3"
    by (simp_all add: placed_panel_def updatePanel_previousRank team_T_def)
  show ?thesis
    using p5 p3 r5 r3
      rank_change_by_recorded_rank [where panel = "placed_panel 5" and team = "team_T 3"
        and h = 32 and mt = "team_T 3" and pm = one_alive_roster and i = 7]
      rank_change_by_recorded_rank [where panel = "placed_panel 3" and team = "team_T 5"
        and h = 32 and mt = "team_T 5" and pm = one_alive_roster and i = 2]
      rank_change_by_recorded_rank [where panel = "placed_panel 3" and team = "team_T 3"
        and h = 32 and mt = "team_T 3" and pm = one_alive_roster and i = 9]
    by (simp add: team_T_def)
qed

subsection \<open>Properties of the leaderboard pass\<close>

lemma overlay_batches_append:
  "overlay_batches (xs @ ys) = overlay_batches xs @ overlay_batches ys"
  by (induction xs rule: overlay_batches.induct) simp_all

lemma overlay_batches_animations:
  "overlay_batches (map (PanelAnimation n) effects) = []"
  by (induction effects) simp_all

lemma forEach_team_overlay_batches:
  "overlay_batches (outputs (forEach_team h mtm pm teams st)) = overlay_batches (outputs st)"
proof (induction teams arbitrary: st)
  case Nil
  then show ?case by simp
next
  case (Cons team rest)
  show ?case
  proof (cases "mtm (name team)")
    case None
    then show ?thesis using Cons.IH by simp
  next
    case (Some matchTeam)
    then show ?thesis
      by (simp add: Cons.IH Let_def overlay_batches_append overlay_batches_animations
          split: prod.splits)
  qed
qed

text \<open>
  C5. On the code no batch of eliminated teams reaches the elimination overlay: whatever
  the input, a pass makes no \<open>eliminationOverlay.enqueue\<close> call. In the example pass
  teams A and B (placement ranks 5 and 7) are just eliminated and none has placement rank
  2: both are pushed and marked, the array of two is logged and sorted, and the pass ends
  with the scheduled snap; the sorted batch is handed to nobody. With placement rank 2
  for B the match is marked ended and the pass returns after the loop, as the claim
  says for that case.
\<close>

theorem eliminated_batch_never_handed_to_overlay:
  "overlay_batches
     (snd (updateTotalLeaderboardOnUIThread h container panels0 totalTeams mtm pm refresh)) = []
   \<and> snd (example_pass 7) =
       [AddedEliminatedLog ''A'' 1, AddedEliminatedLog ''B'' 2, ProcessingLog 2,
        SnapToPositions (pass_teams 7)]
   \<and> map (\<lambda>(n, p). (n, eliminated p)) (fst (example_pass 7)) =
       [(''A'', True), (''B'', True), (''C'', False)]
   \<and> snd (example_pass 2) =
       [AddedEliminatedLog ''A'' 1, MatchEndedLog, AddedEliminatedLog ''B'' 2,
        SkippingOverlayLog]"
proof -
  have never: "overlay_batches
     (snd (updateTotalLeaderboardOnUIThread h container panels0 totalTeams mtm pm refresh)) = []"
    by (simp add: updateTotalLeaderboardOnUIThread_def Let_def overlay_batches_append
        forEach_team_overlay_batches)
  have out7: "snd (example_pass 7) =
       [AddedEliminatedLog ''A'' 1, AddedEliminatedLog ''B'' 2, ProcessingLog 2,
        SnapToPositions (pass_teams 7)]"
    by code_simp
  have marks7: "map (\<lambda>(n, p). (n, eliminated p)) (fst (example_pass 7)) =
       [(''A'', True), (''B'', True), (''C'', False)]"
    by code_simp
  have out2: "snd (example_pass 2) =
       [AddedEliminatedLog ''A'' 1, MatchEndedLog, AddedEliminatedLog ''B'' 2,
        SkippingOverlayLog]"
    by code_simp
  from never out7 marks7 out2 show ?thesis by simp
qed

subsection \<open>Properties of the WebSocket client\<close>

text \<open>
  C4, as stated, fails on an initial connect: a transport error before the client was
  ever authenticated fires the disconnect callback and sets the status to Disconnected,
  and no reconnect timer is set.
\<close>

theorem initial_connect_error_counterexample:
  "client_run [CallConnect ''token'' None, WsError False ''ECONNREFUSED''] listening_client =
     Inr (listening_client\<lparr>ws := Some CONNECTING, accessToken := ''token''\<rparr>,
          [OnStatusChange Connecting, NewWebSocket, OnDisconnect False,
           OnStatusChange Disconnected])"
  by (simp add: client_step_def connect_def connectAsync_def handleConnect_def
      handleDisconnect_def updateStatus_def listening_client_def newWebSocketClient_def)

text \<open>
  C4, amended. When the user has not called \<open>close()\<close>, a transport error during a
  connect attempt is handled exactly as an unexpected close of the socket: the disconnect
  callback is called with \<open>closedByUser = false\<close>, and if the client has been
  authenticated before, the status goes to Connecting and a reconnect is scheduled after
  3000 ms. A client that has never been authenticated schedules nothing and becomes
  Disconnected.
\<close>

theorem connect_error_recovery:
  "\<not> closedByUser c \<longrightarrow>
     client_step (WsError reconn message) c = Inr (handleDisconnect (closedByUser c) c)
     \<and> (connected c \<longrightarrow>
          (\<exists>c' out. client_step (WsError reconn message) c = Inr (c', out)
             \<and> SetTimeout 3000 \<in> set out \<and> reconnectTimer c' \<and> connected c'
             \<and> (hasOnDisconnect c \<longrightarrow> OnDisconnect False \<in> set out)
             \<and> (hasOnStatusChange c \<longrightarrow> OnStatusChange Connecting \<in> set out)))
     \<and> (\<not> connected c \<longrightarrow>
          (\<exists>c' out. client_step (WsError reconn message) c = Inr (c', out)
             \<and> (\<forall>n. SetTimeout n \<notin> set out) \<and> \<not> connected c'
             \<and> reconnectTimer c' = reconnectTimer c
             \<and> (hasOnDisconnect c \<longrightarrow> OnDisconnect False \<in> set out)
             \<and> (hasOnStatusChange c \<longrightarrow> OnStatusChange Disconnected \<in> set out)))"
  by (auto simp: client_step_def handleConnect_def handleDisconnect_def reconnect_def
      updateStatus_def reconnectDelay_def Let_def)

theorem connect_error_recovery_witness:
  "client_run [CallConnect ''token'' None, WsOpened False, WsMessage (Envelope (Some 201) None None)]
      listening_client =
     Inr (authenticated_client,
          [OnStatusChange Connecting, NewWebSocket, Sent (Authenticate ''token''),
           OnStatusChange Connected, OnConnect True False ''Authenticated''])
   \<and> \<not> closedByUser authenticated_client
   \<and> connected authenticated_client
   \<and> client_step (WsError False ''ECONNRESET'') authenticated_client =
       Inr (authenticated_client\<lparr>reconnectTimer := True\<rparr>,
            [OnDisconnect False, OnStatusChange Connecting, SetTimeout 3000])
   \<and> \<not> closedByUser listening_client
   \<and> \<not> connected listening_client
   \<and> client_step (WsError False ''ECONNREFUSED'') listening_client =
       Inr (listening_client, [OnDisconnect False, OnStatusChange Disconnected])"
proof -
  have reach: "client_run [CallConnect ''token'' None, WsOpened False,
        WsMessage (Envelope (Some 201) None None)] listening_client =
     Inr (authenticated_client,
          [OnStatusChange Connecting, NewWebSocket, Sent (Authenticate ''token''),
           OnStatusChange Connected, OnConnect True False ''Authenticated''])"
    by (simp add: client_step_def connect_def connectAsync_def handleConnect_def
        authenticate_def sendMessage_def handleMessage_def handleAuthentication_def
        updateStatus_def listening_client_def newWebSocketClient_def authenticated_client_def)
  have a: "\<not> closedByUser authenticated_client" "connected authenticated_client"
    by (simp_all add: authenticated_client_def listening_client_def newWebSocketClient_def)
  have l: "\<not> closedByUser listening_client" "\<not> connected listening_client"
    by (simp_all add: listening_client_def newWebSocketClient_def)
  have ea: "client_step (WsError False ''ECONNRESET'') authenticated_client =
       Inr (authenticated_client\<lparr>reconnectTimer := True\<rparr>,
            [OnDisconnect False, OnStatusChange Connecting, SetTimeout 3000])"
    using a connect_error_recovery [of authenticated_client False "''ECONNRESET''"]
    by (simp add: handleDisconnect_def reconnect_def updateStatus_def reconnectDelay_def
        authenticated_client_def listening_client_def newWebSocketClient_def)
  have el: "client_step (WsError False ''ECONNREFUSED'') listening_client =
       Inr (listening_client, [OnDisconnect False, OnStatusChange Disconnected])"
    using l connect_error_recovery [of listening_client False "''ECONNREFUSED''"]
    by (simp add: handleDisconnect_def reconnect_def updateStatus_def reconnectDelay_def
        listening_client_def newWebSocketClient_def)
  from reach a l ea el show ?thesis by blast
qed

end
